theory Spec2Isabelle
  imports Main
begin

section \<open>JavaScript values\<close>

text \<open>
  The socket of \<^verbatim>\<open>src/Connection/socket.ts\<close> handles values of type \<^verbatim>\<open>any\<close>: decoded
  payloads, query bodies and responses. They are modelled by the datatype below. Numbers
  are the integers (JavaScript numbers are exact on integers below \<open>2^53\<close>); \<open>NaN\<close> is the
  value \<open>None\<close> of a numeric conversion. An object carries its class, so that
  \<^verbatim>\<open>json instanceof BinaryNode\<close> can be decided, and its own properties in enumeration order
  with distinct keys. A string is the list of its UTF-16 code units, each of them below 256,
  so that the positions and the length of a string are those of JavaScript; a \<^verbatim>\<open>Buffer\<close> is
  the list of its bytes.
\<close>

datatype cls = PlainObject | BinaryNode

datatype json =
    JUndefined
  | JNull
  | JBool bool
  | JNum int
  | JStr string
  | JArr "json list"
  | JObj cls "(string \<times> json) list"

text \<open>A frame on the wire, and the argument of \<^verbatim>\<open>sendRawMessage\<close>: \<^verbatim>\<open>string | Buffer\<close>.\<close>

datatype frame = Str string | Buf string

subsection \<open>Decimal digits\<close>

definition digit_char :: "nat \<Rightarrow> char" where
  "digit_char d = ''0123456789'' ! d"

definition is_digit :: "char \<Rightarrow> bool" where
  "is_digit c = (c \<in> set ''0123456789'')"

definition digit_val :: "char \<Rightarrow> int" where
  "digit_val c = of_char c - 48"

text \<open>\<^verbatim>\<open>`${n}`\<close> for a non-negative integer \<open>n\<close>.\<close>

fun show_nat :: "nat \<Rightarrow> string" where
  "show_nat n = (if n < 10 then [digit_char n] else show_nat (n div 10) @ [digit_char (n mod 10)])"

declare show_nat.simps [simp del]

definition show_int :: "int \<Rightarrow> string" where
  "show_int i = (if i < 0 then CHR ''-'' # show_nat (nat (- i)) else show_nat (nat i))"

text \<open>The number a string of decimal digits denotes.\<close>

definition int_of_digits :: "string \<Rightarrow> int" where
  "int_of_digits cs = foldl (\<lambda>a c. 10 * a + digit_val c) 0 cs"

text \<open>The remainder operator \<^verbatim>\<open>%\<close>: the result has the sign of the dividend.\<close>

definition js_rem :: "int \<Rightarrow> int \<Rightarrow> int" where
  "js_rem a b = sgn a * (\<bar>a\<bar> mod \<bar>b\<bar>)"

subsection \<open>Coercions and property access\<close>

fun truthy :: "json \<Rightarrow> bool" where
  "truthy JUndefined = False"
| "truthy JNull = False"
| "truthy (JBool b) = b"
| "truthy (JNum n) = (n \<noteq> 0)"
| "truthy (JStr s) = (s \<noteq> [])"
| "truthy (JArr xs) = True"
| "truthy (JObj c kvs) = True"

text \<open>\<^verbatim>\<open>a || b\<close>\<close>

definition js_or :: "json \<Rightarrow> json \<Rightarrow> json" where
  "js_or a b = (if truthy a then a else b)"

fun nullish :: "json \<Rightarrow> bool" where
  "nullish JUndefined = True"
| "nullish JNull = True"
| "nullish v = False"

fun typeof :: "json \<Rightarrow> string" where
  "typeof JUndefined = ''undefined''"
| "typeof JNull = ''object''"
| "typeof (JBool b) = ''boolean''"
| "typeof (JNum n) = ''number''"
| "typeof (JStr s) = ''string''"
| "typeof (JArr xs) = ''object''"
| "typeof (JObj c kvs) = ''object''"

fun isArray :: "json \<Rightarrow> bool" where
  "isArray (JArr xs) = True"
| "isArray v = False"

fun instanceof_BinaryNode :: "json \<Rightarrow> bool" where
  "instanceof_BinaryNode (JObj c kvs) = (c = BinaryNode)"
| "instanceof_BinaryNode v = False"

fun join :: "string \<Rightarrow> string list \<Rightarrow> string" where
  "join sep [] = []"
| "join sep [x] = x"
| "join sep (x # y # ys) = x @ sep @ join sep (y # ys)"

text \<open>The string a value becomes inside a template literal.\<close>

fun toStr :: "json \<Rightarrow> string" where
  "toStr JUndefined = ''undefined''"
| "toStr JNull = ''null''"
| "toStr (JBool b) = (if b then ''true'' else ''false'')"
| "toStr (JNum n) = show_int n"
| "toStr (JStr s) = s"
| "toStr (JArr xs) = join '','' (map (\<lambda>x. if nullish x then [] else toStr x) xs)"
| "toStr (JObj c kvs) = ''[object Object]''"

text \<open>\<^verbatim>\<open>v[i]\<close> and \<^verbatim>\<open>v.name\<close> on a value that is neither \<^verbatim>\<open>null\<close> nor \<^verbatim>\<open>undefined\<close>.\<close>

fun getIdx :: "json \<Rightarrow> nat \<Rightarrow> json" where
  "getIdx (JArr xs) i = (if i < length xs then xs ! i else JUndefined)"
| "getIdx (JStr s) i = (if i < length s then JStr [s ! i] else JUndefined)"
| "getIdx (JObj c kvs) i = (case map_of kvs (show_nat i) of Some v \<Rightarrow> v | None \<Rightarrow> JUndefined)"
| "getIdx v i = JUndefined"

fun getProp :: "json \<Rightarrow> string \<Rightarrow> json" where
  "getProp (JObj c kvs) k = (case map_of kvs k of Some v \<Rightarrow> v | None \<Rightarrow> JUndefined)"
| "getProp (JArr xs) k = (if k = ''length'' then JNum (int (length xs)) else JUndefined)"
| "getProp (JStr s) k = (if k = ''length'' then JNum (int (length s)) else JUndefined)"
| "getProp v k = JUndefined"

text \<open>\<^verbatim>\<open>v?.[i]\<close> and \<^verbatim>\<open>v?.name\<close>\<close>

definition optIdx :: "json \<Rightarrow> nat \<Rightarrow> json" where
  "optIdx v i = (if nullish v then JUndefined else getIdx v i)"

definition optProp :: "json \<Rightarrow> string \<Rightarrow> json" where
  "optProp v k = (if nullish v then JUndefined else getProp v k)"

text \<open>
  The pairs \<^verbatim>\<open>(key, v[key])\<close> for \<^verbatim>\<open>key\<close> in \<^verbatim>\<open>Object.keys(v)\<close>, in that order, for a
  truthy \<^verbatim>\<open>v\<close>.
\<close>

fun entries :: "json \<Rightarrow> (string \<times> json) list" where
  "entries (JObj c kvs) = kvs"
| "entries (JArr xs) = zip (map show_nat [0..<length xs]) xs"
| "entries (JStr s) = zip (map show_nat [0..<length s]) (map (\<lambda>c. JStr [c]) s)"
| "entries v = []"

subsection \<open>\<^verbatim>\<open>parseInt\<close> and \<^verbatim>\<open>Date\<close>\<close>

text \<open>
  The white space and the line terminators of the language among the code units below 256:
  the space, the tab, the line feed, the vertical tab, the form feed, the carriage return
  and the no-break space.
\<close>

definition is_space :: "char \<Rightarrow> bool" where
  "is_space c = (c \<in> set [CHR '' '', CHR 0x09, CHR 0x0A, CHR 0x0B, CHR 0x0C, CHR 0x0D, CHR 0xA0])"

definition is_hex :: "char \<Rightarrow> bool" where
  "is_hex c = (c \<in> set ''0123456789abcdefABCDEF'')"

definition hex_val :: "char \<Rightarrow> int" where
  "hex_val c = (if is_digit c then digit_val c
                else if c \<in> set ''abcdef'' then of_char c - 87
                else of_char c - 55)"

definition int_of_hex :: "string \<Rightarrow> int" where
  "int_of_hex cs = foldl (\<lambda>a c. 16 * a + hex_val c) 0 cs"

text \<open>
  \<^verbatim>\<open>parseInt(s)\<close> with no radix: leading white space is skipped, then an optional sign,
  then either \<^verbatim>\<open>0x\<close> and the longest run of hexadecimal digits, or the longest run of
  decimal digits. No digit at all gives \<open>NaN\<close>, here \<open>None\<close>. \<^verbatim>\<open>parseInt(s, 10)\<close> is the
  same without the case of \<^verbatim>\<open>0x\<close>.
\<close>

definition parse_decimal :: "string \<Rightarrow> int option" where
  "parse_decimal s =
     (let ds = takeWhile is_digit s in if ds = [] then None else Some (int_of_digits ds))"

definition parse_magnitude :: "string \<Rightarrow> int option" where
  "parse_magnitude s =
     (if take 2 s = ''0x'' \<or> take 2 s = ''0X''
      then (let ds = takeWhile is_hex (drop 2 s) in if ds = [] then None else Some (int_of_hex ds))
      else parse_decimal s)"

definition parseInt :: "string \<Rightarrow> int option" where
  "parseInt s =
     (case dropWhile is_space s of
        [] \<Rightarrow> None
      | c # cs \<Rightarrow>
          if c = CHR ''-'' then map_option uminus (parse_magnitude cs)
          else if c = CHR ''+'' then parse_magnitude cs
          else parse_magnitude (c # cs))"

definition parseInt10 :: "string \<Rightarrow> int option" where
  "parseInt10 s =
     (case dropWhile is_space s of
        [] \<Rightarrow> None
      | c # cs \<Rightarrow>
          if c = CHR ''-'' then map_option uminus (parse_decimal cs)
          else if c = CHR ''+'' then parse_decimal cs
          else parse_decimal (c # cs))"

text \<open>
  A \<^verbatim>\<open>Date\<close> object: a time value in milliseconds, or an invalid date. \<^verbatim>\<open>new Date(v)\<close> is
  invalid when \<open>v\<close> is \<open>NaN\<close> or beyond 8.64e15 in magnitude.
\<close>

datatype date = Date int | InvalidDate

definition new_Date :: "int option \<Rightarrow> date" where
  "new_Date v = (case v of None \<Rightarrow> InvalidDate
                 | Some t \<Rightarrow> if \<bar>t\<bar> \<le> 8640000000000000 then Date t else InvalidDate)"

fun getTime :: "date \<Rightarrow> int option" where
  "getTime (Date t) = Some t"
| "getTime InvalidDate = None"

section \<open>The connection\<close>

subsection \<open>Errors\<close>

text \<open>
  Modelled from the spec: the enumeration \<^verbatim>\<open>DisconnectReason\<close> of \<^verbatim>\<open>../Types\<close> is not in
  the sources. These are the members the socket names, and \<open>timedOut\<close>, with which a wait
  that runs out of time is rejected. Their values are taken to be status codes of 400 or
  more, which the constructor of \<^verbatim>\<open>Boom\<close> accepts.
\<close>

datatype DisconnectReason = connectionClosed | connectionLost | connectionReplaced | timedOut

text \<open>The status code a \<^verbatim>\<open>Boom\<close> holds: a number, or a member of the enumeration.\<close>

datatype code = Lit int | Reason DisconnectReason

text \<open>
  A \<^verbatim>\<open>Boom\<close> with its message, its status code and its data, which are
  \<^verbatim>\<open>{ query, message }\<close> or absent; a \<^verbatim>\<open>TypeError\<close> of the runtime; the error of the
  assertion that the constructor of \<^verbatim>\<open>Boom\<close> makes on its status code; an error of a
  collaborator (the decoder, the transport); and a value that is not an error but is thrown
  or rejected with all the same.
\<close>

datatype error =
    Boom string code "(json \<times> string) option"
  | TypeError string
  | AssertError string
  | Failure string
  | Thrown json

subsection \<open>Configuration and collaborators\<close>

record authInfo_t =
  encKey :: string
  macKey :: string

text \<open>
  \<^verbatim>\<open>SocketConfig\<close>, and what the socket imports from \<^verbatim>\<open>../Defaults\<close>, \<^verbatim>\<open>../Utils\<close>,
  \<^verbatim>\<open>../BinaryNode\<close> and the runtime, none of which is in this file: they are parameters.
  \<open>decodeWAMessage\<close> returns the tag and the payload or throws; \<open>Number_of_string\<close> is
  the numeric value of a string under unary \<^verbatim>\<open>+\<close> (\<open>None\<close> for \<open>NaN\<close>).
\<close>

record config =
  connectTimeoutMs :: int
  phoneResponseTimeMs :: int
  keepAliveIntervalMs :: int
  expectResponseTimeout :: int
  logger_level :: string
  DEF_TAG_PREFIX :: string
  DEF_CALLBACK_PREFIX :: string
  PHONE_CONNECTION_CB :: string
  decodeWAMessage :: "frame \<Rightarrow> authInfo_t option \<Rightarrow> error + (string \<times> json)"
  toBuffer :: "json \<Rightarrow> string"
  aesEncrypt :: "string \<Rightarrow> string \<Rightarrow> string"
  hmacSign :: "string \<Rightarrow> string \<Rightarrow> string"
  JSON_stringify :: "json \<Rightarrow> string"
  STATUS_CODES :: "int \<Rightarrow> string option"
  Number_of_string :: "string \<Rightarrow> int option"

text \<open>
  \<^verbatim>\<open>new Boom(message, { statusCode, data })\<close> of \<^verbatim>\<open>@hapi/boom\<close>, for a status code that is
  any value: the constructor takes \<^verbatim>\<open>parseInt(statusCode, 10)\<close> and asserts that it is a
  number of 400 or more; when it is not, the constructor throws the error of the assertion,
  whose message ends with the status code, and no \<^verbatim>\<open>Boom\<close> is made. The result is the
  \<^verbatim>\<open>Boom\<close>, or what is thrown in its place. Where the socket writes the status code as a
  literal (400, 422, 429, 599) the assertion holds, and the \<^verbatim>\<open>Boom\<close> is written as such.
\<close>

definition new_Boom :: "config \<Rightarrow> string \<Rightarrow> json \<Rightarrow> (json \<times> string) option \<Rightarrow> error" where
  "new_Boom cfg message statusCode data =
     (let numberCode = parseInt10 (toStr statusCode);
          failed = AssertError (''First argument must be a number (400+): ''
                                @ (case statusCode of JStr cs \<Rightarrow> cs
                                   | v \<Rightarrow> JSON_stringify cfg v))
      in case numberCode of
           None \<Rightarrow> failed
         | Some n \<Rightarrow> if 400 \<le> n then Boom message (Lit n) data else failed)"

subsection \<open>Listeners, timers, promises\<close>

text \<open>
  Every function the socket registers on an emitter, by the place that creates it. The
  closures created inside a call of \<^verbatim>\<open>waitForMessage\<close> or \<^verbatim>\<open>waitForSocketOpen\<close> carry the
  number of the promise of that call. The listener of \<^verbatim>\<open>exitQueryIfResponseNotExpected\<close>
  carries its arguments \<^verbatim>\<open>tag\<close> and \<^verbatim>\<open>cancel\<close>, \<open>None\<close> when \<^verbatim>\<open>cancel\<close> is
  \<^verbatim>\<open>undefined\<close>. \<open>External\<close> is a listener of the caller, who holds \<^verbatim>\<open>ws\<close> and
  \<^verbatim>\<open>socketEvents\<close>.
\<close>

datatype listener =
    OnMessageRecieved
  | OnOpen
  | End
  | OnClose
  | OnPhoneConnection
  | OnCmdDisconnect
  | ExitQuery nat string "listener option"
  | OnRecv nat
  | OnErr nat
  | OnOpenW nat
  | OnCloseW nat
  | External nat

datatype arg = NoArg | AJson json | AErr error | AFrame frame

text \<open>
  The intervals of \<^verbatim>\<open>startKeepAliveRequest\<close> and \<^verbatim>\<open>startPhoneCheckInterval\<close>, the timeout
  of \<^verbatim>\<open>exitQueryIfResponseNotExpected\<close> and the deadline of \<^verbatim>\<open>promiseTimeout\<close>.
\<close>

datatype timer =
    KeepAlive
  | PhoneCheck
  | Grace nat string "listener option"
  | Deadline nat

datatype promise = Pending | Fulfilled json | Rejected error

datatype readyState = CONNECTING | OPEN | CLOSING | CLOSED

text \<open>What the socket does to the world outside it, in order.\<close>

datatype effect =
    Log string string
  | WsSend frame
  | WsClose
  | Called listener string arg
  | PhoneConnectionChanged bool
  | Uncaught error

type_synonym registry = "(string \<times> listener) list"

text \<open>
  The variables of the closure of \<^verbatim>\<open>makeSocket\<close>, the state of \<^verbatim>\<open>ws\<close> and of the two
  emitters, the timers that are set, the promises created so far, and the effects.
\<close>

record conn =
  referenceDateSeconds :: int
  lastDateRecv :: "date option"
  epoch :: nat
  authInfo :: "authInfo_t option"
  keepAliveReq :: "timer option"
  phoneCheckInterval :: "timer option"
  phoneCheckListeners :: int
  readyState :: readyState
  ws_listeners :: registry
  socketEvents :: registry
  timers :: "timer list"
  promises :: "(nat \<times> promise) list"
  trace :: "effect list"

subsection \<open>Emitters\<close>

text \<open>
  \<^verbatim>\<open>on\<close> appends; \<^verbatim>\<open>off\<close> removes the most recently added instance of the listener,
  if there is one.
\<close>

definition on :: "string \<Rightarrow> listener \<Rightarrow> registry \<Rightarrow> registry" where
  "on ev l r = r @ [(ev, l)]"

definition off :: "string \<Rightarrow> listener \<Rightarrow> registry \<Rightarrow> registry" where
  "off ev l r = rev (remove1 (ev, l) (rev r))"

definition removeAllListeners :: "string \<Rightarrow> registry \<Rightarrow> registry" where
  "removeAllListeners ev r = filter (\<lambda>p. fst p \<noteq> ev) r"

definition listeners :: "string \<Rightarrow> registry \<Rightarrow> listener list" where
  "listeners ev r = map snd (filter (\<lambda>p. fst p = ev) r)"

definition effect :: "effect \<Rightarrow> conn \<Rightarrow> conn" where
  "effect e s = s\<lparr>trace := trace s @ [e]\<rparr>"

definition setTimer :: "timer \<Rightarrow> conn \<Rightarrow> conn" where
  "setTimer t s = s\<lparr>timers := timers s @ [t]\<rparr>"

text \<open>\<^verbatim>\<open>clearInterval(h)\<close> and \<^verbatim>\<open>clearTimeout(h)\<close>; nothing happens when \<^verbatim>\<open>h\<close> is \<^verbatim>\<open>undefined\<close>.\<close>

definition clearTimer :: "timer option \<Rightarrow> conn \<Rightarrow> conn" where
  "clearTimer h s = (case h of None \<Rightarrow> s | Some t \<Rightarrow> s\<lparr>timers := removeAll t (timers s)\<rparr>)"

text \<open>Settling a promise: only a pending promise changes.\<close>

definition settle :: "nat \<Rightarrow> promise \<Rightarrow> conn \<Rightarrow> conn" where
  "settle p v s =
     (if map_of (promises s) p = Some Pending
      then s\<lparr>promises := map (\<lambda>(k, w). if k = p then (k, v) else (k, w)) (promises s)\<rparr>
      else s)"

definition newPromise :: "conn \<Rightarrow> nat \<times> conn" where
  "newPromise s = (length (promises s), s\<lparr>promises := promises s @ [(length (promises s), Pending)]\<rparr>)"

section \<open>Sending\<close>

text \<open>
  \<^verbatim>\<open>generateMessageTag\<close>: the tag is built from the reference date, whole or modulo 1000,
  and the epoch, and the epoch is incremented.
\<close>

definition generateMessageTag :: "bool \<Rightarrow> conn \<Rightarrow> string \<times> conn" where
  "generateMessageTag long s =
     (let tag' = show_int (if long then referenceDateSeconds s
                          else js_rem (referenceDateSeconds s) 1000)
                @ ''.--'' @ show_nat (epoch s)
      in (tag', s\<lparr>epoch := epoch s + 1\<rparr>))"

text \<open>
  \<^verbatim>\<open>sendRawMessage\<close> calls \<^verbatim>\<open>ws.send\<close>, which is recorded; the promise it returns is
  fulfilled when the transport is open and rejected by the transport otherwise.
\<close>

definition sendRawMessage :: "frame \<Rightarrow> conn \<Rightarrow> (error + unit) \<times> conn" where
  "sendRawMessage data s =
     (if readyState s = OPEN then Inr () else Inl (Failure ''WebSocket is not open''),
      effect (WsSend data) s)"

record sendOptions =
  json :: json
  binaryTag :: "nat list option"
  tag :: "string option"
  longTag :: bool

text \<open>\<^verbatim>\<open>tag || generateMessageTag(longTag)\<close>: the empty string is not a tag.\<close>

definition tag_or_generate :: "string option \<Rightarrow> bool \<Rightarrow> conn \<Rightarrow> string \<times> conn" where
  "tag_or_generate t long s =
     (case t of
        None \<Rightarrow> generateMessageTag long s
      | Some t' \<Rightarrow> if t' \<noteq> [] then (t', s) else generateMessageTag long s)"

text \<open>\<^verbatim>\<open>Buffer.from(s)\<close> of a string: the bytes of its encoding in UTF-8.\<close>

definition utf8 :: "string \<Rightarrow> string" where
  "utf8 cs = concat (map (\<lambda>c. if (of_char c :: nat) < 128 then [c]
                               else [char_of (192 + (of_char c :: nat) div 64),
                                     char_of (128 + (of_char c :: nat) mod 64)]) cs)"

text \<open>
  \<^verbatim>\<open>sendMessage\<close>: the result is the error the call rejects with, or the tag it returns.
\<close>

definition sendMessage :: "config \<Rightarrow> sendOptions \<Rightarrow> conn \<Rightarrow> (error + string) \<times> conn" where
  "sendMessage cfg opts s0 =
     (let (tag', s1) = tag_or_generate (tag opts) (longTag opts) s0;
          s2 = (if logger_level cfg = ''trace'' then effect (Log ''trace'' ''communication'') s1
                else s1)
      in case binaryTag opts of
           Some bt \<Rightarrow>
             if \<not> instanceof_BinaryNode (json opts)
             then (Inl (Boom (''Invalid binary message of type \"'' @ typeof (json opts)
                              @ ''\". Must be BinaryNode'') (Lit 400) None), s2)
             else (case authInfo s2 of
                     None \<Rightarrow>
                       (Inl (Boom ''No encryption/mac keys to encrypt node with'' (Lit 400) None), s2)
                   | Some keys \<Rightarrow>
                       let binary = toBuffer cfg (json opts);
                           buff = aesEncrypt cfg binary (encKey keys);
                           sign = hmacSign cfg buff (macKey keys);
                           data = Buf (utf8 (tag' @ '','') @ map char_of bt @ sign @ buff);
                           (r, s3) = sendRawMessage data s2
                       in (case r of Inl e \<Rightarrow> (Inl e, s3) | Inr u \<Rightarrow> (Inr tag', s3)))
         | None \<Rightarrow>
             let data = Str (tag' @ '','' @ JSON_stringify cfg (json opts));
                 (r, s3) = sendRawMessage data s2
             in (case r of Inl e \<Rightarrow> (Inl e, s3) | Inr u \<Rightarrow> (Inr tag', s3)))"

definition updateKeys :: "authInfo_t \<Rightarrow> conn \<Rightarrow> conn" where
  "updateKeys info s = s\<lparr>authInfo := Some info\<rparr>"

text \<open>The frames handed to \<^verbatim>\<open>ws.send\<close> so far.\<close>

fun sent :: "effect list \<Rightarrow> frame list" where
  "sent [] = []"
| "sent (WsSend d # es) = d # sent es"
| "sent (e # es) = sent es"

section \<open>Teardown\<close>

definition startPhoneCheckInterval :: "conn \<Rightarrow> conn" where
  "startPhoneCheckInterval s0 =
     (let s1 = s0\<lparr>phoneCheckListeners := phoneCheckListeners s0 + 1\<rparr>
      in if phoneCheckInterval s1 = None
         then setTimer PhoneCheck (s1\<lparr>phoneCheckInterval := Some PhoneCheck\<rparr>)
         else s1)"

definition clearPhoneCheckInterval :: "conn \<Rightarrow> conn" where
  "clearPhoneCheckInterval s0 =
     (let s1 = s0\<lparr>phoneCheckListeners := phoneCheckListeners s0 - 1\<rparr>
      in if phoneCheckListeners s1 \<le> 0
         then (clearTimer (phoneCheckInterval s1) s1)
                \<lparr>phoneCheckInterval := None, phoneCheckListeners := 0\<rparr>
         else s1)"

text \<open>\<^verbatim>\<open>ws.close()\<close>: the transport starts its closing handshake.\<close>

definition ws_close :: "conn \<Rightarrow> conn" where
  "ws_close s = effect WsClose (s\<lparr>readyState := CLOSING\<rparr>)"

text \<open>
  \<^verbatim>\<open>ws.emit('ws-close', error)\<close>: the socket registers nothing on this event itself, so each
  listener there is one of the caller's, and its call is an effect.
\<close>

definition error_arg :: "error option \<Rightarrow> arg" where
  "error_arg e = (case e of None \<Rightarrow> NoArg | Some x \<Rightarrow> AErr x)"

definition emit_ws_close :: "error option \<Rightarrow> conn \<Rightarrow> conn" where
  "emit_ws_close error s =
     s\<lparr>trace := trace s @ map (\<lambda>l. Called l ''ws-close'' (error_arg error))
                              (listeners ''ws-close'' (ws_listeners s))\<rparr>"

text \<open>\<^verbatim>\<open>end\<close>\<close>

definition end_conn :: "error option \<Rightarrow> conn \<Rightarrow> conn" where
  "end_conn error s0 =
     (let s1 = effect (Log ''debug'' ''connection closed'') s0;
          s2 = s1\<lparr>ws_listeners :=
                    removeAllListeners ''message'' (removeAllListeners ''open''
                      (removeAllListeners ''error'' (removeAllListeners ''close''
                        (ws_listeners s1))))\<rparr>;
          s3 = s2\<lparr>phoneCheckListeners := 0\<rparr>;
          s4 = clearTimer (keepAliveReq s3) s3;
          s5 = clearPhoneCheckInterval s4;
          s6 = (if readyState s5 \<noteq> CLOSED \<and> readyState s5 \<noteq> CLOSING then ws_close s5 else s5);
          s7 = emit_ws_close error s6
      in s7\<lparr>ws_listeners := removeAllListeners ''ws-close'' (ws_listeners s7)\<rparr>)"

text \<open>The calls of the listeners of \<^verbatim>\<open>ws-close\<close>: who was told, and what.\<close>

fun closed_with :: "effect list \<Rightarrow> (listener \<times> arg) list" where
  "closed_with [] = []"
| "closed_with (Called l ev a # es) =
     (if ev = ''ws-close'' then (l, a) # closed_with es else closed_with es)"
| "closed_with (e # es) = closed_with es"

section \<open>Receiving\<close>

subsection \<open>The listeners on \<^verbatim>\<open>socketEvents\<close>\<close>

text \<open>\<^verbatim>\<open>v[i]\<close>, which throws when \<^verbatim>\<open>v\<close> is \<^verbatim>\<open>null\<close> or \<^verbatim>\<open>undefined\<close>.\<close>

definition index :: "json \<Rightarrow> nat \<Rightarrow> error + json" where
  "index v i =
     (if nullish v then Inl (TypeError ''Cannot read properties of undefined'')
      else Inr (getIdx v i))"

definition arg_json :: "arg \<Rightarrow> json" where
  "arg_json a = (case a of AJson j \<Rightarrow> j | _ \<Rightarrow> JUndefined)"

text \<open>
  The parameter pattern \<^verbatim>\<open>[, connected]\<close>: the second element of an array or of a string;
  any other argument is not iterable.
\<close>

fun second :: "json \<Rightarrow> error + json" where
  "second (JArr xs) = Inr (getIdx (JArr xs) 1)"
| "second (JStr cs) = Inr (getIdx (JStr cs) 1)"
| "second v = Inl (TypeError ''object is not iterable'')"

text \<open>
  One listener of \<^verbatim>\<open>socketEvents\<close> called with the argument of the event: the error it
  throws, if it throws, and the state it leaves. In the order of the constructors: the
  \<^verbatim>\<open>resolve\<close> of a waiter; the listener of \<^verbatim>\<open>PHONE_CONNECTION_CB\<close> and that of
  \<^verbatim>\<open>CB:Cmd,type:disconnect\<close>, both registered at construction; the listener of
  \<^verbatim>\<open>exitQueryIfResponseNotExpected\<close>; a listener of the caller.
\<close>

fun runSocketListener :: "config \<Rightarrow> string \<Rightarrow> arg \<Rightarrow> listener \<Rightarrow> conn \<Rightarrow> error option \<times> conn" where
  "runSocketListener cfg ev a (OnRecv p) s = (None, settle p (Fulfilled (arg_json a)) s)"
| "runSocketListener cfg ev a OnPhoneConnection s =
     (case index (arg_json a) 1 of
        Inl e \<Rightarrow> (Some e, s)
      | Inr v \<Rightarrow>
          if \<not> truthy v
          then (None, effect (Log ''info'' ''Connection terminated by phone, closing...'')
                        (end_conn (Some (Boom ''Connection terminated by phone''
                                          (Reason connectionLost) None)) s))
          else (None, effect (PhoneConnectionChanged True) s))"
| "runSocketListener cfg ev a OnCmdDisconnect s =
     (case index (arg_json a) 1 of
        Inl e \<Rightarrow> (Some e, s)
      | Inr v \<Rightarrow>
          if nullish v then (Some (TypeError ''Cannot destructure property kind''), s)
          else (let kind = getProp v ''kind'';
                    reason = (if kind = JStr ''replaced'' then connectionReplaced
                              else connectionLost)
                in (None, end_conn (Some (Boom (''Connection terminated by server: \"''
                                                 @ toStr (js_or kind (JStr ''unknown'')) @ ''\"'')
                                           (Reason reason) None)) s)))"
| "runSocketListener cfg ev a (ExitQuery p tg cancel) s =
     (case second (arg_json a) of
        Inl e \<Rightarrow> (Some e, s)
      | Inr connected \<Rightarrow>
          if truthy connected
          then (let s1 = setTimer (Grace p tg cancel) s
                in (None, s1\<lparr>socketEvents :=
                               off (PHONE_CONNECTION_CB cfg) (ExitQuery p tg cancel)
                                 (socketEvents s1)\<rparr>))
          else (None, s))"
| "runSocketListener cfg ev a l s = (None, effect (Called l ev a) s)"

text \<open>
  \<^verbatim>\<open>emit\<close> calls the listeners registered when it starts, in the order of registration; an
  exception of a listener leaves \<^verbatim>\<open>emit\<close> at once. It returns whether there was a listener.
\<close>

fun runAll :: "(listener \<Rightarrow> conn \<Rightarrow> error option \<times> conn) \<Rightarrow> listener list \<Rightarrow> conn
               \<Rightarrow> error option \<times> conn" where
  "runAll f [] s = (None, s)"
| "runAll f (l # ls) s =
     (case f l s of (Some e, s') \<Rightarrow> (Some e, s') | (None, s') \<Rightarrow> runAll f ls s')"

definition emit :: "config \<Rightarrow> string \<Rightarrow> arg \<Rightarrow> conn \<Rightarrow> bool \<times> error option \<times> conn" where
  "emit cfg ev a s =
     (let ls = listeners ev (socketEvents s);
          (thrown, s') = runAll (runSocketListener cfg ev a) ls s
      in (ls \<noteq> [], thrown, s'))"

subsection \<open>\<^verbatim>\<open>onMessageRecieved\<close>\<close>

text \<open>
  \<^verbatim>\<open>anyTriggered = socketEvents.emit(name, json) || anyTriggered\<close>, after which nothing more
  runs if a listener threw.
\<close>

definition emit_or :: "config \<Rightarrow> string \<Rightarrow> json \<Rightarrow> bool \<times> error option \<times> conn
                       \<Rightarrow> bool \<times> error option \<times> conn" where
  "emit_or cfg ev j acc =
     (case acc of
        (t, Some e, s) \<Rightarrow> (t, Some e, s)
      | (t, None, s) \<Rightarrow> (case emit cfg ev (AJson j) s of (t', thrown, s') \<Rightarrow> (t' \<or> t, thrown, s')))"

definition l0_of :: "json \<Rightarrow> json" where
  "l0_of j = js_or (js_or (getProp j ''header'') (getIdx j 0)) (JStr [])"

definition l1_of :: "json \<Rightarrow> json" where
  "l1_of j = js_or (js_or (optProp j ''attributes'') (optIdx j 1)) (JObj PlainObject [])"

definition l2_of :: "json \<Rightarrow> json" where
  "l2_of j = js_or (js_or (optProp (optIdx (optProp j ''data'') 0) ''header'')
                          (optIdx (getIdx j 2) 0)) (JStr [])"

text \<open>The part of \<^verbatim>\<open>onMessageRecieved\<close> after a payload has been decoded.\<close>

definition dispatch :: "config \<Rightarrow> string \<Rightarrow> json \<Rightarrow> conn \<Rightarrow> error option \<times> conn" where
  "dispatch cfg messageTag j s0 =
     (let s1 = (if logger_level cfg = ''trace'' then effect (Log ''trace'' ''communication'') s0
                else s0);
          r1 = emit_or cfg (DEF_TAG_PREFIX cfg @ messageTag) j (False, None, s1);
          cb = DEF_CALLBACK_PREFIX cfg;
          l0 = toStr (l0_of j);
          l1 = l1_of j;
          l2 = toStr (l2_of j);
          r2 = fold (\<lambda>(key, v) acc.
                       emit_or cfg (cb @ l0 @ '','' @ key) j
                         (emit_or cfg (cb @ l0 @ '','' @ key @ '':'' @ toStr v) j
                           (emit_or cfg (cb @ l0 @ '','' @ key @ '':'' @ toStr v @ '','' @ l2) j acc)))
                    (entries l1) r1;
          r3 = emit_or cfg (cb @ l0 @ '',,'' @ l2) j r2;
          r4 = emit_or cfg (cb @ l0) j r3
      in case r4 of
           (t, Some e, s) \<Rightarrow> (Some e, s)
         | (anyTriggered, None, s) \<Rightarrow>
             if \<not> anyTriggered \<and> logger_level cfg = ''debug''
             then (None, effect (Log ''debug'' ''communication recv'') s)
             else (None, s))"

text \<open>
  \<^verbatim>\<open>message[0] === '!'\<close>: an element of a string is a string of one character, an
  element of a \<^verbatim>\<open>Buffer\<close> is a number, and no number is strictly equal to a string.
\<close>

fun first_is_bang :: "frame \<Rightarrow> bool" where
  "first_is_bang (Str (c # cs)) = (c = CHR ''!'')"
| "first_is_bang (Str []) = False"
| "first_is_bang (Buf b) = False"

text \<open>
  \<^verbatim>\<open>message.slice(1, message.length).toString('utf-8')\<close>, which is the rest of a string;
  a \<^verbatim>\<open>Buffer\<close> never gets there, and its bytes are left as they are.
\<close>

fun slice1 :: "frame \<Rightarrow> string" where
  "slice1 (Str cs) = drop 1 cs"
| "slice1 (Buf b) = drop 1 b"

definition onMessageRecieved :: "config \<Rightarrow> frame \<Rightarrow> conn \<Rightarrow> error option \<times> conn" where
  "onMessageRecieved cfg message s =
     (if first_is_bang message
      then (let timestamp = slice1 message;
                s1 = s\<lparr>lastDateRecv := Some (new_Date (parseInt timestamp))\<rparr>
            in case emit cfg ''received-pong'' NoArg s1 of (t, thrown, s2) \<Rightarrow> (thrown, s2))
      else (case decodeWAMessage cfg message (authInfo s) of
              Inl error \<Rightarrow> (None, end_conn (Some error) s)
            | Inr (messageTag, j) \<Rightarrow>
                if \<not> truthy j then (None, s) else dispatch cfg messageTag j s))"

section \<open>The keep-alive request\<close>

definition startKeepAliveRequest :: "conn \<Rightarrow> conn" where
  "startKeepAliveRequest s = setTimer KeepAlive (s\<lparr>keepAliveReq := Some KeepAlive\<rparr>)"

text \<open>\<^verbatim>\<open>if (!lastDateRecv) lastDateRecv = new Date()\<close>, at the time \<open>now\<close> of the clock.\<close>

definition init_lastDateRecv :: "int \<Rightarrow> conn \<Rightarrow> conn" where
  "init_lastDateRecv now s =
     (if lastDateRecv s = None then s\<lparr>lastDateRecv := Some (new_Date (Some now))\<rparr> else s)"

text \<open>\<^verbatim>\<open>Date.now() - lastDateRecv.getTime()\<close>, \<open>None\<close> for \<open>NaN\<close>.\<close>

definition diff :: "int \<Rightarrow> conn \<Rightarrow> int option" where
  "diff now s = (case lastDateRecv s of
                   None \<Rightarrow> None
                 | Some d \<Rightarrow> map_option (\<lambda>t. now - t) (getTime d))"

text \<open>\<^verbatim>\<open>diff > keepAliveIntervalMs+5000\<close>, which is false of \<open>NaN\<close>.\<close>

definition suspicious :: "config \<Rightarrow> int option \<Rightarrow> bool" where
  "suspicious cfg d = (case d of None \<Rightarrow> False | Some x \<Rightarrow> x > keepAliveIntervalMs cfg + 5000)"

text \<open>One run of the callback of the interval, at the time \<open>now\<close> of the clock.\<close>

definition keepAliveTick :: "config \<Rightarrow> int \<Rightarrow> conn \<Rightarrow> conn" where
  "keepAliveTick cfg now s0 =
     (let s1 = init_lastDateRecv now s0
      in if suspicious cfg (diff now s1)
         then end_conn (Some (Boom ''Connection was lost'' (Reason connectionLost) None)) s1
         else if readyState s1 = OPEN then snd (sendRawMessage (Str ''?,,'') s1)
         else effect (Log ''warn'' ''keep alive called when WS not open'') s1)"

section \<open>The listeners on \<^verbatim>\<open>ws\<close>\<close>

text \<open>
  One listener of \<^verbatim>\<open>ws\<close> called with the argument of the event. In the order of the
  constructors: the four listeners registered at construction; \<^verbatim>\<open>onErr\<close> of
  \<^verbatim>\<open>waitForMessage\<close>; \<^verbatim>\<open>onOpen\<close> and \<^verbatim>\<open>onClose\<close> of \<^verbatim>\<open>waitForSocketOpen\<close>; a listener
  of the caller.
\<close>

fun runWsListener :: "config \<Rightarrow> string \<Rightarrow> arg \<Rightarrow> listener \<Rightarrow> conn \<Rightarrow> error option \<times> conn" where
  "runWsListener cfg ev a OnMessageRecieved s =
     (case a of
        AFrame m \<Rightarrow> onMessageRecieved cfg m s
      | _ \<Rightarrow> (Some (TypeError ''Cannot read properties of undefined''), s))"
| "runWsListener cfg ev a OnOpen s =
     (None, effect (Log ''info'' ''Opened WS connection to WhatsApp Web'') (startKeepAliveRequest s))"
| "runWsListener cfg ev a End s =
     (None, end_conn (case a of AErr e \<Rightarrow> Some e | AJson j \<Rightarrow> Some (Thrown j) | _ \<Rightarrow> None) s)"
| "runWsListener cfg ev a OnClose s =
     (None, end_conn (Some (Boom ''Connection Terminated'' (Reason connectionLost) None)) s)"
| "runWsListener cfg ev a (OnErr p) s =
     (None, settle p (Rejected (case a of
                                  AErr e \<Rightarrow> e
                                | AJson j \<Rightarrow> if truthy j then Thrown j
                                             else Boom ''Connection Closed'' (Lit 429) None
                                | _ \<Rightarrow> Boom ''Connection Closed'' (Lit 429) None)) s)"
| "runWsListener cfg ev a (OnOpenW p) s = (None, settle p (Fulfilled JUndefined) s)"
| "runWsListener cfg ev a (OnCloseW p) s =
     (None, settle p (Rejected (case a of AErr e \<Rightarrow> e | _ \<Rightarrow> Thrown (arg_json a))) s)"
| "runWsListener cfg ev a l s = (None, effect (Called l ev a) s)"

definition emit_ws :: "config \<Rightarrow> string \<Rightarrow> arg \<Rightarrow> conn \<Rightarrow> bool \<times> error option \<times> conn" where
  "emit_ws cfg ev a s =
     (let ls = listeners ev (ws_listeners s);
          (thrown, s') = runAll (runWsListener cfg ev a) ls s
      in (ls \<noteq> [], thrown, s'))"

text \<open>
  The transport opens, or delivers a frame: what an exception of a listener would be is
  uncaught.
\<close>

definition uncaught :: "bool \<times> error option \<times> conn \<Rightarrow> conn" where
  "uncaught r = (case r of (t, None, s) \<Rightarrow> s | (t, Some e, s) \<Rightarrow> effect (Uncaught e) s)"

definition ws_opened :: "config \<Rightarrow> conn \<Rightarrow> conn" where
  "ws_opened cfg s = uncaught (emit_ws cfg ''open'' NoArg (s\<lparr>readyState := OPEN\<rparr>))"

definition ws_message :: "config \<Rightarrow> frame \<Rightarrow> conn \<Rightarrow> conn" where
  "ws_message cfg m s = uncaught (emit_ws cfg ''message'' (AFrame m) s)"

section \<open>Waiting for a message\<close>

definition exitQueryIfResponseNotExpected ::
    "config \<Rightarrow> nat \<Rightarrow> string \<Rightarrow> listener option \<Rightarrow> conn \<Rightarrow> conn" where
  "exitQueryIfResponseNotExpected cfg p tg cancel s =
     s\<lparr>socketEvents := on (PHONE_CONNECTION_CB cfg) (ExitQuery p tg cancel) (socketEvents s)\<rparr>"

text \<open>The function \<^verbatim>\<open>exitQueryIfResponseNotExpected\<close> returns.\<close>

definition cancelPhoneChecker :: "config \<Rightarrow> nat \<Rightarrow> string \<Rightarrow> listener option \<Rightarrow> conn \<Rightarrow> conn" where
  "cancelPhoneChecker cfg p tg cancel s =
     clearTimer (Some (Grace p tg cancel))
       (s\<lparr>socketEvents := off (PHONE_CONNECTION_CB cfg) (ExitQuery p tg cancel) (socketEvents s)\<rparr>)"

text \<open>
  Modelled from the spec: \<^verbatim>\<open>promiseTimeout\<close> of \<^verbatim>\<open>../Utils\<close> is not in the sources. It
  makes the promise that the executor settles and, when a timeout is given, a deadline
  after which the promise is rejected as timed out; the deadline is dropped when the
  promise is settled.
\<close>

definition promiseTimeout_start :: "int option \<Rightarrow> conn \<Rightarrow> nat \<times> conn" where
  "promiseTimeout_start ms s =
     (let (p, s1) = newPromise s
      in (p, case ms of None \<Rightarrow> s1 | Some t \<Rightarrow> if t \<noteq> 0 then setTimer (Deadline p) s1 else s1))"

definition promiseTimeout_done :: "nat \<Rightarrow> conn \<Rightarrow> conn" where
  "promiseTimeout_done p s = clearTimer (Some (Deadline p)) s"

text \<open>
  \<^verbatim>\<open>waitForMessage\<close> up to its \<^verbatim>\<open>await\<close>. The variable \<^verbatim>\<open>onErr\<close> is declared and not
  yet assigned when \<^verbatim>\<open>exitQueryIfResponseNotExpected(tag, onErr)\<close> is called; the executor
  of the promise assigns it afterwards. \<open>p\<close> is the number of the promise of this call.
\<close>

definition waitForMessage_start :: "config \<Rightarrow> string \<Rightarrow> bool \<Rightarrow> int option \<Rightarrow> conn \<Rightarrow> nat \<times> conn" where
  "waitForMessage_start cfg tg requiresPhone ms s0 =
     (let p = length (promises s0);
          onErr = None;
          s1 = (if requiresPhone
                then exitQueryIfResponseNotExpected cfg p tg onErr (startPhoneCheckInterval s0)
                else s0);
          (p', s2) = promiseTimeout_start ms s1;
          onRecv = OnRecv p';
          onErr = OnErr p';
          s3 = s2\<lparr>socketEvents := on (''TAG:'' @ tg) onRecv (socketEvents s2)\<rparr>;
          s4 = s3\<lparr>ws_listeners := on ''error'' onErr (on ''close'' onErr (ws_listeners s3))\<rparr>
      in (p', s4))"

text \<open>The \<^verbatim>\<open>finally\<close> block of \<^verbatim>\<open>waitForMessage\<close>.\<close>

definition waitForMessage_finally :: "config \<Rightarrow> nat \<Rightarrow> string \<Rightarrow> bool \<Rightarrow> conn \<Rightarrow> conn" where
  "waitForMessage_finally cfg p tg requiresPhone s0 =
     (let s1 = (if requiresPhone then clearPhoneCheckInterval s0 else s0);
          s2 = (if requiresPhone then cancelPhoneChecker cfg p tg None s1 else s1);
          s3 = s2\<lparr>socketEvents := off (''TAG:'' @ tg) (OnRecv p) (socketEvents s2)\<rparr>
      in s3\<lparr>ws_listeners := off ''error'' (OnErr p) (off ''close'' (OnErr p) (ws_listeners s3))\<rparr>)"

text \<open>
  What \<^verbatim>\<open>waitForMessage\<close> does once its promise is settled: \<open>None\<close> while the promise is
  pending and the call suspended, otherwise the result of the call and the state it
  leaves.
\<close>

definition waitForMessage_await ::
    "config \<Rightarrow> nat \<Rightarrow> string \<Rightarrow> bool \<Rightarrow> conn \<Rightarrow> ((error + json) \<times> conn) option" where
  "waitForMessage_await cfg p tg requiresPhone s =
     (case map_of (promises s) p of
        Some (Fulfilled v) \<Rightarrow>
          Some (Inr v, waitForMessage_finally cfg p tg requiresPhone (promiseTimeout_done p s))
      | Some (Rejected e) \<Rightarrow>
          Some (Inl e, waitForMessage_finally cfg p tg requiresPhone (promiseTimeout_done p s))
      | _ \<Rightarrow> None)"

section \<open>Timers\<close>

definition sendAdminTest :: "config \<Rightarrow> conn \<Rightarrow> conn" where
  "sendAdminTest cfg s =
     snd (sendMessage cfg \<lparr>json = JArr [JStr ''admin'', JStr ''test''], binaryTag = None,
                           tag = None, longTag = False\<rparr> s)"

definition phoneCheckTick :: "config \<Rightarrow> conn \<Rightarrow> conn" where
  "phoneCheckTick cfg s =
     (if phoneCheckListeners s \<le> 0
      then effect (Log ''warn'' ''phone check called without listeners'') s
      else effect (PhoneConnectionChanged False)
             (sendAdminTest cfg (effect (Log ''info'' ''checking phone connection...'') s)))"

text \<open>
  The callback of the timeout of \<^verbatim>\<open>exitQueryIfResponseNotExpected\<close>: it logs and calls
  \<^verbatim>\<open>cancel\<close>. Calling \<^verbatim>\<open>undefined\<close> throws, and nothing catches what a timer throws.
\<close>

definition graceElapsed :: "config \<Rightarrow> listener option \<Rightarrow> conn \<Rightarrow> conn" where
  "graceElapsed cfg cancel s0 =
     (let s1 = effect (Log ''info''
                 ''cancelling wait for message as a response is no longer expected from the phone'') s0
      in case cancel of
           None \<Rightarrow> effect (Uncaught (TypeError ''cancel is not a function'')) s1
         | Some f \<Rightarrow>
             (case runWsListener cfg [] (AErr (Boom ''Not expecting a response'' (Lit 422) None)) f s1 of
                (None, s2) \<Rightarrow> s2
              | (Some e, s2) \<Rightarrow> effect (Uncaught e) s2))"

text \<open>A timer that is set fires at the time \<open>now\<close>; a timeout is then no longer set.\<close>

fun fire :: "config \<Rightarrow> int \<Rightarrow> timer \<Rightarrow> conn \<Rightarrow> conn" where
  "fire cfg now KeepAlive s = (if KeepAlive \<in> set (timers s) then keepAliveTick cfg now s else s)"
| "fire cfg now PhoneCheck s = (if PhoneCheck \<in> set (timers s) then phoneCheckTick cfg s else s)"
| "fire cfg now (Grace p tg cancel) s =
     (if Grace p tg cancel \<in> set (timers s)
      then graceElapsed cfg cancel (clearTimer (Some (Grace p tg cancel)) s)
      else s)"
| "fire cfg now (Deadline p) s =
     (if Deadline p \<in> set (timers s)
      then settle p (Rejected (Boom ''Timed Out'' (Reason timedOut) None))
             (clearTimer (Some (Deadline p)) s)
      else s)"

section \<open>Queries\<close>

record queryOptions = sendOptions +
  timeoutMs :: "int option"
  expect200 :: bool
  requiresPhoneConnection :: bool

text \<open>Unary \<^verbatim>\<open>+\<close>: the number a value converts to, \<open>None\<close> for \<open>NaN\<close>.\<close>

fun toNumber :: "config \<Rightarrow> json \<Rightarrow> int option" where
  "toNumber cfg JUndefined = None"
| "toNumber cfg JNull = Some 0"
| "toNumber cfg (JBool b) = Some (if b then 1 else 0)"
| "toNumber cfg (JNum n) = Some n"
| "toNumber cfg (JStr cs) = Number_of_string cfg cs"
| "toNumber cfg v = Number_of_string cfg (toStr v)"

definition show_number :: "int option \<Rightarrow> string" where
  "show_number n = (case n of None \<Rightarrow> ''NaN'' | Some i \<Rightarrow> show_int i)"

text \<open>\<^verbatim>\<open>+(response.status ? response.status : 200)\<close>\<close>

definition responseStatusCode :: "config \<Rightarrow> json \<Rightarrow> int option" where
  "responseStatusCode cfg response =
     toNumber cfg (if truthy (getProp response ''status'') then getProp response ''status''
                   else JNum 200)"

text \<open>\<^verbatim>\<open>Math.floor(n / 100) !== 2\<close>\<close>

definition not_2xx :: "int option \<Rightarrow> bool" where
  "not_2xx n = (case n of None \<Rightarrow> True | Some i \<Rightarrow> i div 100 \<noteq> 2)"

text \<open>
  \<^verbatim>\<open>query\<close> up to its first \<^verbatim>\<open>await\<close> of the response: the tag, the waiter, the send. It
  rejects at once when the send does.
\<close>

definition query_start :: "config \<Rightarrow> queryOptions \<Rightarrow> conn \<Rightarrow> (error + nat \<times> string) \<times> conn" where
  "query_start cfg opts s0 =
     (let (tag', s1) = tag_or_generate (tag opts) (longTag opts) s0;
          (p, s2) = waitForMessage_start cfg tag' (requiresPhoneConnection opts) (timeoutMs opts) s1;
          (r, s3) = sendMessage cfg \<lparr>json = json opts, binaryTag = binaryTag opts,
                                     tag = Some tag', longTag = False\<rparr> s2
      in (case r of Inl e \<Rightarrow> (Inl e, s3) | Inr t \<Rightarrow> (Inr (p, tag'), s3)))"

text \<open>\<^verbatim>\<open>query\<close> from the response on.\<close>

definition query_resume :: "config \<Rightarrow> queryOptions \<Rightarrow> json \<Rightarrow> conn \<Rightarrow> (error + json) \<times> conn" where
  "query_resume cfg opts response s0 =
     (if nullish response then (Inl (TypeError ''Cannot read properties of undefined''), s0)
      else
        let code = responseStatusCode cfg response;
            s1 = (if code = Some 599
                  then end_conn (Some (Boom ''WA server overloaded'' (Lit 599) None)) s0
                  else s0)
        in if expect200 opts \<and> not_2xx code
           then (let message = (case (case code of None \<Rightarrow> None | Some i \<Rightarrow> STATUS_CODES cfg i) of
                                  None \<Rightarrow> ''unknown''
                                | Some m \<Rightarrow> if m \<noteq> [] then m else ''unknown'')
                 in (Inl (new_Boom cfg
                            (''Unexpected status in '' @ [CHR 0x27]
                             @ toStr (if isArray (json opts) then getIdx (json opts) 0
                                      else js_or (optProp (json opts) ''header'') (JStr ''query''))
                             @ [CHR 0x27] @ '': '' @ message @ ''('' @ show_number code @ '')'')
                            (getProp response ''status'')
                            (Some (json opts, message))), s1))
           else (Inr response, s1))"

text \<open>
  \<^verbatim>\<open>query\<close> once the promise of its waiter is settled; \<open>None\<close> while it is suspended.
\<close>

definition query_await ::
    "config \<Rightarrow> queryOptions \<Rightarrow> nat \<Rightarrow> string \<Rightarrow> conn \<Rightarrow> ((error + json) \<times> conn) option" where
  "query_await cfg opts p tg s =
     (case waitForMessage_await cfg p tg (requiresPhoneConnection opts) s of
        None \<Rightarrow> None
      | Some (Inl e, s1) \<Rightarrow> Some (Inl e, s1)
      | Some (Inr response, s1) \<Rightarrow> Some (query_resume cfg opts response s1))"

section \<open>Waiting for the transport to open\<close>

text \<open>
  \<^verbatim>\<open>waitForSocketOpen\<close> up to its \<^verbatim>\<open>await\<close>: it returns at once, throws at once, or
  registers its listeners on \<^verbatim>\<open>ws\<close> and is suspended on the promise whose number it gives.
\<close>

definition waitForSocketOpen_start :: "conn \<Rightarrow> (error + nat option) \<times> conn" where
  "waitForSocketOpen_start s =
     (if readyState s = OPEN then (Inr None, s)
      else if readyState s = CLOSED \<or> readyState s = CLOSING
      then (Inl (Boom ''Connection Closed'' (Reason connectionClosed) None), s)
      else (let (p, s1) = newPromise s;
                onOpen = OnOpenW p;
                onClose = OnCloseW p
            in (Inr (Some p),
                s1\<lparr>ws_listeners := on ''error'' onClose (on ''close'' onClose
                                       (on ''open'' onOpen (ws_listeners s1)))\<rparr>)))"

text \<open>The function given to \<^verbatim>\<open>finally\<close>.\<close>

definition waitForSocketOpen_finally :: "nat \<Rightarrow> conn \<Rightarrow> conn" where
  "waitForSocketOpen_finally p s =
     s\<lparr>socketEvents := off ''error'' (OnCloseW p) (off ''close'' (OnCloseW p)
                          (off ''open'' (OnOpenW p) (socketEvents s)))\<rparr>"

definition waitForSocketOpen_await :: "nat \<Rightarrow> conn \<Rightarrow> ((error + unit) \<times> conn) option" where
  "waitForSocketOpen_await p s =
     (case map_of (promises s) p of
        Some (Fulfilled v) \<Rightarrow> Some (Inr (), waitForSocketOpen_finally p s)
      | Some (Rejected e) \<Rightarrow> Some (Inl e, waitForSocketOpen_finally p s)
      | _ \<Rightarrow> None)"

section \<open>Construction\<close>

text \<open>
  \<^verbatim>\<open>makeSocket\<close>: the state once the function has returned, where \<open>now\<close> is
  \<^verbatim>\<open>unixTimestampSeconds(new Date())\<close>.
\<close>

definition makeSocket :: "config \<Rightarrow> int \<Rightarrow> conn" where
  "makeSocket cfg now =
     \<lparr>referenceDateSeconds = now,
      lastDateRecv = None,
      epoch = 0,
      authInfo = None,
      keepAliveReq = None,
      phoneCheckInterval = None,
      phoneCheckListeners = 0,
      readyState = CONNECTING,
      ws_listeners = on ''close'' OnClose (on ''error'' End (on ''open'' OnOpen
                       (on ''message'' OnMessageRecieved []))),
      socketEvents = on ''CB:Cmd,type:disconnect'' OnCmdDisconnect
                       (on (PHONE_CONNECTION_CB cfg) OnPhoneConnection []),
      timers = [],
      promises = [],
      trace = []\<rparr>"

section \<open>Observations\<close>

text \<open>A sequence of calls of \<^verbatim>\<open>generateMessageTag\<close>, one for each flag, and the tags returned.\<close>

fun generateMessageTags :: "bool list \<Rightarrow> conn \<Rightarrow> string list \<times> conn" where
  "generateMessageTags [] s = ([], s)"
| "generateMessageTags (l # ls) s =
     (let (t, s1) = generateMessageTag l s;
          (ts, s2) = generateMessageTags ls s1
      in (t # ts, s2))"

text \<open>The epoch a tag ends with: the number its last run of digits denotes.\<close>

definition tag_epoch :: "string \<Rightarrow> nat" where
  "tag_epoch t = nat (int_of_digits (rev (takeWhile is_digit (rev t))))"

text \<open>The caller registers a listener on \<^verbatim>\<open>ws\<close>.\<close>

definition ws_on :: "string \<Rightarrow> listener \<Rightarrow> conn \<Rightarrow> conn" where
  "ws_on ev l s = s\<lparr>ws_listeners := on ev l (ws_listeners s)\<rparr>"

text \<open>
  What happens to an open socket, with the time of the local clock at which it happens: the
  transport delivers a frame, or the keep-alive interval runs.
\<close>

datatype event = Received int frame | Tick int

fun run :: "config \<Rightarrow> event list \<Rightarrow> conn \<Rightarrow> conn" where
  "run cfg [] s = s"
| "run cfg (Received t m # es) s = run cfg es (ws_message cfg m s)"
| "run cfg (Tick t # es) s = run cfg es (fire cfg t KeepAlive s)"


subsection \<open>A socket to run\<close>

text \<open>
  Collaborators for the examples. The decoder splits a text frame at its first comma and
  reads the body \<^verbatim>\<open>null\<close> as \<^verbatim>\<open>null\<close>, \<^verbatim>\<open>Pong\<close> as the array \<^verbatim>\<open>["Pong", true]\<close>,
  \<^verbatim>\<open>status:\<close> and a number as an object with that status, any other body as an array of
  one string; it fails on an empty body and on a binary frame without keys.
\<close>

definition example_decode :: "frame \<Rightarrow> authInfo_t option \<Rightarrow> error + (string \<times> json)" where
  "example_decode m keys =
     (case m of
        Str cs \<Rightarrow>
          (let tg = takeWhile (\<lambda>c. c \<noteq> CHR '','') cs;
               body = drop (length tg + 1) cs
           in if body = [] then Inl (Failure ''malformed frame'')
              else if body = ''null'' then Inr (tg, JNull)
              else if body = ''Pong'' then Inr (tg, JArr [JStr ''Pong'', JBool True])
              else if take 7 body = ''status:''
              then Inr (tg, JObj PlainObject [(''status'', JNum (int_of_digits (drop 7 body)))])
              else Inr (tg, JArr [JStr body]))
      | Buf b \<Rightarrow>
          (case keys of
             None \<Rightarrow> Inl (Failure ''no keys to decrypt with'')
           | Some k \<Rightarrow> Inr (takeWhile (\<lambda>c. c \<noteq> CHR '','') b, JArr [JStr b])))"

definition example_config :: config where
  "example_config =
     \<lparr>connectTimeoutMs = 20000,
      phoneResponseTimeMs = 15000,
      keepAliveIntervalMs = 25000,
      expectResponseTimeout = 12000,
      logger_level = ''info'',
      DEF_TAG_PREFIX = ''TAG:'',
      DEF_CALLBACK_PREFIX = ''CB:'',
      PHONE_CONNECTION_CB = ''CB:Pong'',
      decodeWAMessage = example_decode,
      toBuffer = toStr,
      aesEncrypt = (\<lambda>b k. b),
      hmacSign = (\<lambda>b k. k),
      JSON_stringify = toStr,
      STATUS_CODES = (\<lambda>n. if n = 404 then Some ''Not Found'' else None),
      Number_of_string = (\<lambda>cs. if cs \<noteq> [] \<and> list_all is_digit cs
                                then Some (int_of_digits cs) else None)\<rparr>"

text \<open>
  A socket made at second 1700000000 whose caller listens to \<^verbatim>\<open>ws-close\<close>, and the same
  once the transport has opened.
\<close>

definition example_socket :: conn where
  "example_socket = ws_on ''ws-close'' (External 0) (makeSocket example_config 1700000000)"

definition example_open :: conn where
  "example_open = ws_opened example_config example_socket"

text \<open>A query for the status, with or without \<^verbatim>\<open>expect200\<close>, that requires the phone.\<close>

definition example_query :: "bool \<Rightarrow> queryOptions" where
  "example_query expect =
     \<lparr>json = JArr [JStr ''query'', JStr ''Status''], binaryTag = None, tag = None,
      longTag = False, timeoutMs = None, expect200 = expect, requiresPhoneConnection = True\<rparr>"

text \<open>
  The query sent on the open socket, which gives it the tag \<^verbatim>\<open>0.--0\<close> and the promise 0;
  then either a frame with that tag and some body, or the frame that says the phone is
  connected and after it the timeout of \<^verbatim>\<open>exitQueryIfResponseNotExpected\<close> running out.
\<close>

definition example_sent :: conn where
  "example_sent = snd (query_start example_config (example_query True) example_open)"

definition example_answered :: "string \<Rightarrow> conn" where
  "example_answered body = ws_message example_config (Str (''0.--0,'' @ body)) example_sent"

definition example_reachable :: conn where
  "example_reachable = ws_message example_config (Str ''s2,Pong'') example_sent"

definition example_elapsed :: conn where
  "example_elapsed =
     fire example_config 1700000050000 (Grace 0 ''0.--0'' None) example_reachable"


text \<open>
  \<^verbatim>\<open>waitForSocketOpen\<close> called before the transport is open; then the transport opens and
  the call returns.
\<close>

definition example_waiting :: conn where
  "example_waiting = snd (waitForSocketOpen_start example_socket)"

definition example_returned :: conn where
  "example_returned = waitForSocketOpen_finally 0 (ws_opened example_config example_waiting)"

section \<open>Tags\<close>

lemma digit_cases:
  "d < 10 \<Longrightarrow> d = 0 \<or> d = 1 \<or> d = 2 \<or> d = 3 \<or> d = 4 \<or> d = 5 \<or> d = 6 \<or> d = 7 \<or> d = 8 \<or> d = (9::nat)"
  by arith

lemma digit_val_digit_char: "d < 10 \<Longrightarrow> digit_val (digit_char d) = int d"
  using digit_cases [of d] by (auto simp: digit_val_def digit_char_def)

lemma is_digit_digit_char: "d < 10 \<Longrightarrow> is_digit (digit_char d)"
  using digit_cases [of d] by (auto simp: is_digit_def digit_char_def)

lemma show_nat_digits: "\<forall>c \<in> set (show_nat n). is_digit c"
proof (induction n rule: show_nat.induct)
  case (1 n)
  show ?case
  proof (cases "n < 10")
    case True
    then show ?thesis by (simp add: show_nat.simps [of n] is_digit_digit_char)
  next
    case False
    with 1 show ?thesis by (simp add: show_nat.simps [of n] is_digit_digit_char)
  qed
qed

lemma int_of_digits_snoc: "int_of_digits (cs @ [c]) = 10 * int_of_digits cs + digit_val c"
  by (simp add: int_of_digits_def)

lemma int_of_digits_show_nat: "int_of_digits (show_nat n) = int n"
proof (induction n rule: show_nat.induct)
  case (1 n)
  show ?case
  proof (cases "n < 10")
    case True
    then show ?thesis by (simp add: show_nat.simps [of n] int_of_digits_def digit_val_digit_char)
  next
    case False
    with 1 have "int_of_digits (show_nat (n div 10)) = int (n div 10)" by simp
    moreover have "int n = 10 * int (n div 10) + int (n mod 10)"
      by (metis mult_div_mod_eq of_nat_add of_nat_mult of_nat_numeral)
    ultimately show ?thesis
      using False
      by (simp add: show_nat.simps [of n] int_of_digits_snoc digit_val_digit_char)
  qed
qed

text \<open>The epoch can be read back from a tag, whatever stands before the separator.\<close>

lemma tag_epoch_tag: "tag_epoch (pre @ ''.--'' @ show_nat n) = n"
proof -
  have "takeWhile is_digit (rev (show_nat n) @ rev (pre @ ''.--'')) = rev (show_nat n)"
    using show_nat_digits [of n] by (simp add: takeWhile_tail is_digit_def)
  then show ?thesis by (simp add: tag_epoch_def int_of_digits_show_nat)
qed

lemma tag_epoch_generateMessageTag:
  "tag_epoch (fst (generateMessageTag long s)) = epoch s
   \<and> epoch (snd (generateMessageTag long s)) = epoch s + 1"
  using tag_epoch_tag [of _ "epoch s"] by (simp add: generateMessageTag_def Let_def)

lemma generateMessageTags_epochs:
  "map tag_epoch (fst (generateMessageTags ls s)) = [epoch s ..< epoch s + length ls]
   \<and> epoch (snd (generateMessageTags ls s)) = epoch s + length ls"
proof (induction ls arbitrary: s)
  case Nil
  then show ?case by simp
next
  case (Cons l ls)
  obtain t s1 where g: "generateMessageTag l s = (t, s1)"
    by (cases "generateMessageTag l s")
  then have t: "tag_epoch t = epoch s" and e: "epoch s1 = epoch s + 1"
    using tag_epoch_generateMessageTag [of l s] by simp_all
  have u: "[epoch s ..< epoch s + length (l # ls)] = epoch s # [epoch s1 ..< epoch s1 + length ls]"
    by (simp add: e upt_conv_Cons del: upt_Suc)
  have "map tag_epoch (fst (generateMessageTags (l # ls) s))
          = tag_epoch t # map tag_epoch (fst (generateMessageTags ls s1))"
    by (simp add: g split_beta)
  moreover have "epoch (snd (generateMessageTags (l # ls) s))
                   = epoch (snd (generateMessageTags ls s1))"
    by (simp add: g split_beta)
  ultimately show ?case using Cons [of s1] t e u by (simp del: upt_Suc)
qed

text \<open>
  Claim C1. Whatever the flags of a sequence of calls of \<^verbatim>\<open>generateMessageTag\<close> on one
  connection, in whatever state it is: the tags returned are pairwise distinct; the epoch
  in each tag is less than the epoch in the next; the epochs are the consecutive numbers
  from the epoch the connection had, and the connection is left with the next one.
\<close>

theorem tags_distinct_epochs_increase:
  "distinct (fst (generateMessageTags ls s))
   \<and> sorted_wrt (<) (map tag_epoch (fst (generateMessageTags ls s)))
   \<and> map tag_epoch (fst (generateMessageTags ls s)) = [epoch s ..< epoch s + length ls]
   \<and> epoch (snd (generateMessageTags ls s)) = epoch s + length ls"
proof -
  let ?ts = "fst (generateMessageTags ls s)"
  have m: "map tag_epoch ?ts = [epoch s ..< epoch s + length ls]"
    by (simp add: generateMessageTags_epochs)
  have "distinct (map tag_epoch ?ts)" by (simp add: m)
  then have "distinct ?ts" by (simp add: distinct_map)
  moreover have "sorted_wrt (<) (map tag_epoch ?ts)" by (simp add: m)
  ultimately show ?thesis using generateMessageTags_epochs [of ls s] by simp
qed

text \<open>Nothing but \<^verbatim>\<open>generateMessageTag\<close> writes the epoch; teardown keeps it.\<close>

lemma epoch_end_conn: "epoch (end_conn e s) = epoch s"
  by (simp add: end_conn_def Let_def emit_ws_close_def ws_close_def effect_def
        clearTimer_def clearPhoneCheckInterval_def split: option.split)


section \<open>Teardown tells the listeners once\<close>

lemma closed_with_append: "closed_with (xs @ ys) = closed_with xs @ closed_with ys"
  by (induction xs rule: closed_with.induct) auto

lemma closed_with_calls:
  "closed_with (map (\<lambda>l. Called l ''ws-close'' a) ls) = map (\<lambda>l. (l, a)) ls"
  by (induction ls) auto

lemma listeners_removeAllListeners:
  "listeners ev (removeAllListeners ev' r) = (if ev = ev' then [] else listeners ev r)"
  by (induction r) (auto simp: listeners_def removeAllListeners_def)

lemma listeners_off_other:
  assumes "ev \<noteq> ev'"
  shows "listeners ev (off ev' l r) = listeners ev r"
proof -
  have "filter (\<lambda>p. fst p = ev) (remove1 (ev', l) xs) = filter (\<lambda>p. fst p = ev) xs" for xs
    using assms by (induction xs) auto
  then have "filter (\<lambda>p. fst p = ev) (rev (remove1 (ev', l) (rev r)))
               = filter (\<lambda>p. fst p = ev) r"
    by (simp add: rev_filter [symmetric])
  then show ?thesis by (simp add: listeners_def off_def)
qed

lemma clearTimer_keeps [simp]:
  "trace (clearTimer h s) = trace s"
  "ws_listeners (clearTimer h s) = ws_listeners s"
  "readyState (clearTimer h s) = readyState s"
  "lastDateRecv (clearTimer h s) = lastDateRecv s"
  "promises (clearTimer h s) = promises s"
  by (simp_all add: clearTimer_def split: option.split)

lemma clearPhoneCheckInterval_keeps [simp]:
  "trace (clearPhoneCheckInterval s) = trace s"
  "ws_listeners (clearPhoneCheckInterval s) = ws_listeners s"
  "readyState (clearPhoneCheckInterval s) = readyState s"
  "lastDateRecv (clearPhoneCheckInterval s) = lastDateRecv s"
  "promises (clearPhoneCheckInterval s) = promises s"
  by (simp_all add: clearPhoneCheckInterval_def Let_def)

lemma closed_with_end_conn:
  "closed_with (trace (end_conn e s))
     = closed_with (trace s)
       @ map (\<lambda>l. (l, error_arg e)) (listeners ''ws-close'' (ws_listeners s))"
  by (simp add: end_conn_def Let_def emit_ws_close_def ws_close_def effect_def
        closed_with_append closed_with_calls listeners_removeAllListeners)

lemma listeners_end_conn:
  "listeners ev (ws_listeners (end_conn e s))
     = (if ev \<in> {''ws-close'', ''message'', ''open'', ''error'', ''close''} then []
        else listeners ev (ws_listeners s))"
  by (simp add: end_conn_def Let_def emit_ws_close_def ws_close_def effect_def
        listeners_removeAllListeners)

lemma readyState_end_conn:
  "readyState (end_conn e s) = (if readyState s = CLOSED then CLOSED else CLOSING)"
  by (simp add: end_conn_def Let_def emit_ws_close_def ws_close_def effect_def)

lemma lastDateRecv_end_conn [simp]: "lastDateRecv (end_conn e s) = lastDateRecv s"
  by (simp add: end_conn_def Let_def emit_ws_close_def ws_close_def effect_def)

text \<open>
  Claim C6. After \<^verbatim>\<open>end(r1)\<close> and then \<^verbatim>\<open>end(r2)\<close> on a connection in any state, the calls
  of listeners of \<^verbatim>\<open>ws-close\<close> are those made before, and one call of each listener that
  was registered, with \<open>r1\<close>; the second \<^verbatim>\<open>end\<close> adds no call to those of the first.
\<close>

theorem end_twice_tells_once:
  "closed_with (trace (end_conn r2 (end_conn r1 s)))
     = closed_with (trace s)
       @ map (\<lambda>l. (l, error_arg r1)) (listeners ''ws-close'' (ws_listeners s))
   \<and> closed_with (trace (end_conn r2 (end_conn r1 s))) = closed_with (trace (end_conn r1 s))"
  by (simp add: closed_with_end_conn listeners_end_conn)

section \<open>The example socket\<close>

lemma example_open_eq:
  "example_open =
     \<lparr>referenceDateSeconds = 1700000000, lastDateRecv = None, epoch = 0,
      authInfo = None, keepAliveReq = Some KeepAlive,
      phoneCheckInterval = None, phoneCheckListeners = 0, readyState = OPEN,
      ws_listeners =
        [(''message'', OnMessageRecieved), (''open'', OnOpen),
         (''error'', End), (''close'', OnClose), (''ws-close'', External 0)],
      socketEvents =
        [(''CB:Pong'', OnPhoneConnection), (''CB:Cmd,type:disconnect'', OnCmdDisconnect)],
      timers = [KeepAlive], promises = [],
      trace = [Log ''info'' ''Opened WS connection to WhatsApp Web'']\<rparr>"
  by code_simp

section \<open>Sending without keys\<close>

lemma sent_append: "sent (xs @ ys) = sent xs @ sent ys"
  by (induction xs rule: sent.induct) auto

lemma tag_or_generate_keeps:
  "authInfo (snd (tag_or_generate t long s)) = authInfo s
   \<and> trace (snd (tag_or_generate t long s)) = trace s"
  by (simp add: tag_or_generate_def generateMessageTag_def Let_def split: option.split)

text \<open>
  Claim C2. \<^verbatim>\<open>sendMessage\<close> with a binary tag and a \<^verbatim>\<open>BinaryNode\<close> payload, on a connection
  whose \<^verbatim>\<open>authInfo\<close> is not set, rejects with the error of the missing keys, and
  \<^verbatim>\<open>ws.send\<close> has been called with nothing more than before. The rejection is decided
  before the only \<^verbatim>\<open>await\<close> of the function.
\<close>

theorem sendMessage_without_keys:
  assumes "binaryTag opts = Some bt" and "instanceof_BinaryNode (json opts)"
    and "authInfo s = None"
  shows "fst (sendMessage cfg opts s)
           = Inl (Boom ''No encryption/mac keys to encrypt node with'' (Lit 400) None)
         \<and> sent (trace (snd (sendMessage cfg opts s))) = sent (trace s)"
proof -
  obtain tg s1 where g: "tag_or_generate (tag opts) (longTag opts) s = (tg, s1)"
    by (cases "tag_or_generate (tag opts) (longTag opts) s")
  with tag_or_generate_keeps [of "tag opts" "longTag opts" s]
  have "authInfo s1 = None" and "trace s1 = trace s"
    using assms(3) by simp_all
  then show ?thesis
    using assms(1,2) g by (simp add: sendMessage_def Let_def effect_def sent_append)
qed

text \<open>
  The keys are absent from construction until \<^verbatim>\<open>updateKeys\<close> is called; here on the
  example socket, with the binary tag of \<^verbatim>\<open>setQuery\<close>.
\<close>

theorem sendMessage_without_keys_witness:
  "binaryTag \<lparr>json = JObj BinaryNode [(''header'', JStr ''action'')],
              binaryTag = Some [10, 128], tag = None, longTag = False\<rparr> = Some [10, 128]
   \<and> instanceof_BinaryNode (json \<lparr>json = JObj BinaryNode [(''header'', JStr ''action'')],
                                 binaryTag = Some [10, 128], tag = None, longTag = False\<rparr>)
   \<and> authInfo example_open = None
   \<and> fst (sendMessage example_config
             \<lparr>json = JObj BinaryNode [(''header'', JStr ''action'')],
              binaryTag = Some [10, 128], tag = None, longTag = False\<rparr> example_open)
       = Inl (Boom ''No encryption/mac keys to encrypt node with'' (Lit 400) None)
   \<and> sent (trace (snd (sendMessage example_config
             \<lparr>json = JObj BinaryNode [(''header'', JStr ''action'')],
              binaryTag = Some [10, 128], tag = None, longTag = False\<rparr> example_open)))
       = sent (trace example_open)"
proof -
  have k: "authInfo example_open = None" by (simp add: example_open_eq)
  show ?thesis
    using k sendMessage_without_keys
              [of "\<lparr>json = JObj BinaryNode [(''header'', JStr ''action'')],
                    binaryTag = Some [10, 128], tag = None, longTag = False\<rparr>"
                  "[10, 128]" example_open example_config]
    by simp
qed

section \<open>Payloads that are dropped\<close>

text \<open>
  Claim C10. A frame that is not taken for a pong and that the decoder decodes to a payload
  which is \<^verbatim>\<open>null\<close> or \<^verbatim>\<open>undefined\<close> leaves the connection as it was: no listener is
  called, nothing is logged, nothing is torn down, nothing is thrown. When the decoder
  fails instead, the connection is torn down with the error of the decoder.
\<close>

theorem null_payload_dropped:
  assumes "\<not> first_is_bang message"
  shows "(decodeWAMessage cfg message (authInfo s) = Inr (tg, j) \<and> nullish j \<longrightarrow>
            onMessageRecieved cfg message s = (None, s))
       \<and> (decodeWAMessage cfg message (authInfo s) = Inl e \<longrightarrow>
            onMessageRecieved cfg message s = (None, end_conn (Some e) s))"
proof -
  have "nullish j \<Longrightarrow> \<not> truthy j" by (cases j) auto
  then show ?thesis using assms by (auto simp: onMessageRecieved_def)
qed

theorem null_payload_dropped_witness:
  "\<not> first_is_bang (Str ''s9,null'')
   \<and> decodeWAMessage example_config (Str ''s9,null'') (authInfo example_open) = Inr (''s9'', JNull)
   \<and> nullish JNull
   \<and> onMessageRecieved example_config (Str ''s9,null'') example_open = (None, example_open)
   \<and> \<not> first_is_bang (Str ''s9,'')
   \<and> decodeWAMessage example_config (Str ''s9,'') (authInfo example_open)
       = Inl (Failure ''malformed frame'')
   \<and> onMessageRecieved example_config (Str ''s9,'') example_open
       = (None, end_conn (Some (Failure ''malformed frame'')) example_open)"
proof -
  have d1: "decodeWAMessage example_config (Str ''s9,null'') (authInfo example_open)
              = Inr (''s9'', JNull)"
    by (simp add: example_config_def example_decode_def)
  have d2: "decodeWAMessage example_config (Str ''s9,'') (authInfo example_open)
              = Inl (Failure ''malformed frame'')"
    by (simp add: example_config_def example_decode_def)
  have b1: "\<not> first_is_bang (Str ''s9,null'')" and b2: "\<not> first_is_bang (Str ''s9,'')"
    by simp_all
  show ?thesis
    using d1 d2 b1 b2
      null_payload_dropped [OF b1, of example_config example_open "''s9''" JNull]
      null_payload_dropped [OF b2, of example_config example_open _ _ "Failure ''malformed frame''"]
    by simp
qed

section \<open>The status of a response\<close>

lemma off_keeps_ws_close:
  "ev \<noteq> ''ws-close'' \<Longrightarrow> listeners ''ws-close'' (off ev l r) = listeners ''ws-close'' r"
  by (rule listeners_off_other) simp

lemma finally_keeps:
  "trace (waitForMessage_finally cfg p tg rp (promiseTimeout_done p s)) = trace s
   \<and> listeners ''ws-close''
        (ws_listeners (waitForMessage_finally cfg p tg rp (promiseTimeout_done p s)))
       = listeners ''ws-close'' (ws_listeners s)"
  by (simp add: waitForMessage_finally_def promiseTimeout_done_def cancelPhoneChecker_def
        Let_def off_keeps_ws_close)

lemma responseStatusCode_nullish:
  "nullish response \<Longrightarrow> responseStatusCode cfg response = Some 200"
  by (cases response) (simp_all add: responseStatusCode_def)

text \<open>
  Claim C3. When the promise of a query is fulfilled with a response whose status is 599,
  the query, with \<^verbatim>\<open>expect200\<close> or without, goes on after the \<^verbatim>\<open>finally\<close> block of its
  waiter with \<^verbatim>\<open>end(new Boom('WA server overloaded', { statusCode: 599 }))\<close>: every
  listener of \<^verbatim>\<open>ws-close\<close> is called with that error, and \<^verbatim>\<open>ws\<close> is closing or closed.
\<close>

theorem query_status_599_ends:
  assumes "map_of (promises s) p = Some (Fulfilled response)"
    and "responseStatusCode cfg response = Some 599"
  shows "\<exists>r s'. query_await cfg opts p tg s = Some (r, s')
           \<and> s' = end_conn (Some (Boom ''WA server overloaded'' (Lit 599) None))
                   (waitForMessage_finally cfg p tg (requiresPhoneConnection opts)
                      (promiseTimeout_done p s))
           \<and> closed_with (trace s')
               = closed_with (trace s)
                 @ map (\<lambda>l. (l, AErr (Boom ''WA server overloaded'' (Lit 599) None)))
                       (listeners ''ws-close'' (ws_listeners s))
           \<and> readyState s' \<noteq> OPEN \<and> readyState s' \<noteq> CONNECTING"
proof -
  have nn: "\<not> nullish response"
    using assms(2) responseStatusCode_nullish [of response cfg] by auto
  let ?f = "waitForMessage_finally cfg p tg (requiresPhoneConnection opts) (promiseTimeout_done p s)"
  let ?s' = "end_conn (Some (Boom ''WA server overloaded'' (Lit 599) None)) ?f"
  have "snd (query_resume cfg opts response ?f) = ?s'"
    using nn assms(2) by (simp add: query_resume_def Let_def)
  then have "\<exists>r. query_await cfg opts p tg s = Some (r, ?s')"
    using assms(1)
    by (cases "query_resume cfg opts response ?f")
       (simp add: query_await_def waitForMessage_await_def)
  moreover have "closed_with (trace ?s')
      = closed_with (trace s)
        @ map (\<lambda>l. (l, AErr (Boom ''WA server overloaded'' (Lit 599) None)))
              (listeners ''ws-close'' (ws_listeners s))"
    by (simp add: closed_with_end_conn finally_keeps error_arg_def)
  moreover have "readyState ?s' \<noteq> OPEN \<and> readyState ?s' \<noteq> CONNECTING"
    by (simp add: readyState_end_conn)
  ultimately show ?thesis by blast
qed

lemma example_answered_599:
  "map_of (promises (example_answered ''status:599'')) 0
     = Some (Fulfilled (JObj PlainObject [(''status'', JNum 599)]))
   \<and> closed_with (trace (example_answered ''status:599'')) = []
   \<and> listeners ''ws-close'' (ws_listeners (example_answered ''status:599'')) = [External 0]"
  by code_simp

text \<open>The example query answered with status 599, with \<^verbatim>\<open>expect200\<close> and without.\<close>

theorem query_status_599_ends_witness:
  "map_of (promises (example_answered ''status:599'')) 0
     = Some (Fulfilled (JObj PlainObject [(''status'', JNum 599)]))
   \<and> responseStatusCode example_config (JObj PlainObject [(''status'', JNum 599)]) = Some 599
   \<and> (\<exists>r s'. query_await example_config (example_query True) 0 ''0.--0''
                  (example_answered ''status:599'') = Some (r, s')
          \<and> closed_with (trace s')
              = [(External 0, AErr (Boom ''WA server overloaded'' (Lit 599) None))]
          \<and> readyState s' \<noteq> OPEN)
   \<and> (\<exists>r s'. query_await example_config (example_query False) 0 ''0.--0''
                  (example_answered ''status:599'') = Some (r, s')
          \<and> closed_with (trace s')
              = [(External 0, AErr (Boom ''WA server overloaded'' (Lit 599) None))]
          \<and> readyState s' \<noteq> OPEN)"
proof -
  have h1: "map_of (promises (example_answered ''status:599'')) 0
              = Some (Fulfilled (JObj PlainObject [(''status'', JNum 599)]))"
    by (simp add: example_answered_599)
  have h2: "responseStatusCode example_config (JObj PlainObject [(''status'', JNum 599)])
              = Some 599"
    by (simp add: responseStatusCode_def)
  have "\<exists>r s'. query_await example_config (example_query expect) 0 ''0.--0''
            (example_answered ''status:599'') = Some (r, s')
          \<and> closed_with (trace s')
              = [(External 0, AErr (Boom ''WA server overloaded'' (Lit 599) None))]
          \<and> readyState s' \<noteq> OPEN" for expect
    using query_status_599_ends [OF h1 h2, of "example_query expect" "''0.--0''"]
    by (auto simp: example_answered_599)
  with h1 h2 show ?thesis by blast
qed

subsection \<open>Strings of digits\<close>

lemma digit_facts:
  "is_digit c \<Longrightarrow> \<not> is_space c \<and> c \<noteq> CHR ''-'' \<and> c \<noteq> CHR ''+'' \<and> c \<noteq> CHR ''x''
                 \<and> c \<noteq> CHR ''X'' \<and> 0 \<le> digit_val c"
  by (auto simp: is_digit_def is_space_def digit_val_def)

lemma int_of_digits_nonneg: "list_all is_digit cs \<Longrightarrow> 0 \<le> int_of_digits cs"
proof (induction cs rule: rev_induct)
  case Nil
  then show ?case by (simp add: int_of_digits_def)
next
  case (snoc c cs)
  then have "0 \<le> int_of_digits cs" and "0 \<le> digit_val c"
    by (simp_all add: digit_facts)
  then show ?case by (simp add: int_of_digits_snoc)
qed

lemma parse_decimal_digits:
  assumes "ts \<noteq> []" and "list_all is_digit ts"
  shows "parse_decimal ts = Some (int_of_digits ts)"
proof -
  have w: "takeWhile is_digit ts = ts"
    using assms(2) by (simp add: takeWhile_eq_all_conv list_all_iff)
  show ?thesis using assms(1) by (simp add: parse_decimal_def Let_def w)
qed

text \<open>
  \<^verbatim>\<open>parseInt\<close> of a string of decimal digits is the number they denote, with the radix 10
  or with none.
\<close>

lemma parseInt_digits:
  assumes "ts \<noteq> []" and "list_all is_digit ts"
  shows "parseInt ts = Some (int_of_digits ts)"
proof -
  obtain c cs where ts: "ts = c # cs" using assms(1) by (cases ts) auto
  with assms(2) have c: "is_digit c" and cs: "list_all is_digit cs" by simp_all
  have x: "take 2 ts \<noteq> ''0x'' \<and> take 2 ts \<noteq> ''0X''"
  proof (cases cs)
    case Nil
    with ts show ?thesis by simp
  next
    case (Cons c' cs')
    with cs have "is_digit c'" by simp
    with ts Cons show ?thesis using digit_facts [of c'] by auto
  qed
  have "parse_magnitude ts = Some (int_of_digits ts)"
    using x parse_decimal_digits [OF assms] by (simp add: parse_magnitude_def)
  then show ?thesis
    using ts c digit_facts [of c] by (simp add: parseInt_def)
qed




subsection \<open>The status that is expected\<close>






text \<open>
  A status that is truthy and below 400 is not of the class 2xx either, but no \<^verbatim>\<open>Boom\<close> can
  be made with it: the example query answered with status 302 rejects with the error of the
  assertion of the constructor, which holds neither the status nor the payload.
\<close>

lemma status_below_400_makes_no_Boom:
  "map_option fst (query_await example_config (example_query True) 0 ''0.--0''
                     (example_answered ''status:302''))
     = Some (Inl (AssertError ''First argument must be a number (400+): 302''))"
  by code_simp

section \<open>Pong frames\<close>

lemma settle_lastDateRecv [simp]: "lastDateRecv (settle p v s) = lastDateRecv s"
  by (simp add: settle_def)

lemma runSocketListener_lastDateRecv:
  "lastDateRecv (snd (runSocketListener cfg ev a l s)) = lastDateRecv s"
  by (cases l)
     (simp_all add: Let_def effect_def setTimer_def split: sum.split)

lemma runAll_lastDateRecv:
  assumes "\<And>l s. lastDateRecv (snd (f l s)) = lastDateRecv s"
  shows "lastDateRecv (snd (runAll f ls s)) = lastDateRecv s"
proof (induction ls arbitrary: s)
  case Nil
  then show ?case by simp
next
  case (Cons l ls)
  obtain thrown s1 where f: "f l s = (thrown, s1)" by (cases "f l s")
  with assms [of l s] have "lastDateRecv s1 = lastDateRecv s" by simp
  with Cons [of s1] f show ?case by (cases thrown) simp_all
qed

lemma emit_lastDateRecv: "lastDateRecv (snd (snd (emit cfg ev a s))) = lastDateRecv s"
  using runAll_lastDateRecv [of "runSocketListener cfg ev a", OF runSocketListener_lastDateRecv]
  by (simp add: emit_def Let_def split_beta)




lemma text_pong:
  "onMessageRecieved cfg (Str (CHR ''!'' # timestamp)) s
     = (case emit cfg ''received-pong'' NoArg
               (s\<lparr>lastDateRecv := Some (new_Date (parseInt timestamp))\<rparr>) of
          (t, thrown, s2) \<Rightarrow> (thrown, s2))"
  by (simp add: onMessageRecieved_def Let_def split: prod.split)

lemma text_pong_lastDateRecv:
  "lastDateRecv (snd (onMessageRecieved cfg (Str (CHR ''!'' # timestamp)) s))
     = Some (new_Date (parseInt timestamp))"
proof -
  let ?s1 = "s\<lparr>lastDateRecv := Some (new_Date (parseInt timestamp))\<rparr>"
  obtain t thrown s2 where e: "emit cfg ''received-pong'' NoArg ?s1 = (t, thrown, s2)"
    by (cases "emit cfg ''received-pong'' NoArg ?s1")
  with emit_lastDateRecv [of cfg "''received-pong''" NoArg ?s1]
  have "lastDateRecv s2 = Some (new_Date (parseInt timestamp))" by simp
  with e show ?thesis by (simp add: text_pong)
qed


text \<open>The listeners of \<^verbatim>\<open>socketEvents\<close> do not call the decoder.\<close>

lemma runSocketListener_decoder:
  "runSocketListener (cfg\<lparr>decodeWAMessage := d\<rparr>) ev a l s = runSocketListener cfg ev a l s"
  by (cases l) (auto simp: Let_def split: sum.split)

lemma emit_decoder: "emit (cfg\<lparr>decodeWAMessage := d\<rparr>) ev a s = emit cfg ev a s"
proof -
  have "runSocketListener (cfg\<lparr>decodeWAMessage := d\<rparr>) ev a = runSocketListener cfg ev a"
    by (intro ext) (rule runSocketListener_decoder)
  then show ?thesis by (simp add: emit_def)
qed

text \<open>
  A text frame whose first character is \<^verbatim>\<open>!\<close> sets \<^verbatim>\<open>lastDateRecv\<close> to the date of
  \<^verbatim>\<open>parseInt\<close> of the rest and emits \<^verbatim>\<open>received-pong\<close>, and does nothing else: whatever
  the decoder is, the outcome is the same. When the rest is a string of decimal digits that
  denotes at most 8640000000000000, the date is that number of milliseconds.
\<close>

lemma text_pong_classified:
  "onMessageRecieved cfg (Str (CHR ''!'' # ts)) s
     = (case emit cfg ''received-pong'' NoArg
               (s\<lparr>lastDateRecv := Some (new_Date (parseInt ts))\<rparr>) of
          (t, thrown, s2) \<Rightarrow> (thrown, s2))
   \<and> onMessageRecieved (cfg\<lparr>decodeWAMessage := d\<rparr>) (Str (CHR ''!'' # ts)) s
       = onMessageRecieved cfg (Str (CHR ''!'' # ts)) s
   \<and> lastDateRecv (snd (onMessageRecieved cfg (Str (CHR ''!'' # ts)) s))
       = Some (new_Date (parseInt ts))
   \<and> (ts \<noteq> [] \<and> list_all is_digit ts \<and> int_of_digits ts \<le> 8640000000000000 \<longrightarrow>
        new_Date (parseInt ts) = Date (int_of_digits ts))"
proof -
  have "onMessageRecieved (cfg\<lparr>decodeWAMessage := d\<rparr>) (Str (CHR ''!'' # ts)) s
          = onMessageRecieved cfg (Str (CHR ''!'' # ts)) s"
    by (simp add: text_pong emit_decoder)
  moreover have "new_Date (parseInt ts) = Date (int_of_digits ts)"
    if "ts \<noteq> [] \<and> list_all is_digit ts \<and> int_of_digits ts \<le> 8640000000000000"
    using that parseInt_digits [of ts] int_of_digits_nonneg [of ts]
    by (simp add: new_Date_def)
  ultimately show ?thesis
    using text_pong [of cfg ts s] text_pong_lastDateRecv [of cfg ts s] by blast
qed

text \<open>White space before the digits is skipped, the no-break space too.\<close>

lemma text_pong_after_space:
  "lastDateRecv (snd (onMessageRecieved example_config (Str [CHR ''!'', CHR 0xA0, CHR ''4'', CHR ''2''])
                        example_open)) = Some (Date 42)"
  by code_simp

text \<open>A \<^verbatim>\<open>Buffer\<close> is handed to the decoder, whatever its first byte.\<close>

lemma buffer_frames_are_decoded:
  "onMessageRecieved cfg (Buf b) s
     = (case decodeWAMessage cfg (Buf b) (authInfo s) of
          Inl error \<Rightarrow> (None, end_conn (Some error) s)
        | Inr (messageTag, j) \<Rightarrow>
            if \<not> truthy j then (None, s) else dispatch cfg messageTag j s)"
  by (simp add: onMessageRecieved_def)

text \<open>
  Claim C7 at a frame whose first byte is \<^verbatim>\<open>!\<close> and which the code does not take for a
  pong: the \<^verbatim>\<open>Buffer\<close> of the bytes of \<^verbatim>\<open>!1700000000000\<close>. Its first element is a number,
  which is never \<^verbatim>\<open>=== '!'\<close>, so the frame is handed to the decoder. On the example
  socket, which has no keys, the decoder fails: the connection is torn down with the error
  of the decoder and \<^verbatim>\<open>lastDateRecv\<close> is not set. The same characters in a text frame are
  a pong with the timestamp 1700000000000.
\<close>

theorem buffer_pong_reaches_decoder:
  "first_is_bang (Buf ''!1700000000000'') = False
   \<and> onMessageRecieved example_config (Buf ''!1700000000000'') example_open
       = (None, end_conn (Some (Failure ''no keys to decrypt with'')) example_open)
   \<and> lastDateRecv (snd (onMessageRecieved example_config (Buf ''!1700000000000'') example_open))
       = None
   \<and> closed_with (trace (snd (onMessageRecieved example_config (Buf ''!1700000000000'')
                                 example_open)))
       = [(External 0, AErr (Failure ''no keys to decrypt with''))]
   \<and> lastDateRecv (snd (onMessageRecieved example_config (Str ''!1700000000000'') example_open))
       = Some (Date 1700000000000)"
  by code_simp

section \<open>The keep-alive request\<close>







text \<open>
  When no pong comes at all, the first run of the interval sets \<^verbatim>\<open>lastDateRecv\<close> and the
  third, 50000 ms later, tears the connection down.
\<close>

lemma silent_server_third_tick:
  "readyState (run example_config [Tick 1700000025000, Tick 1700000050000] example_open) = OPEN
   \<and> lastDateRecv (run example_config [Tick 1700000025000, Tick 1700000050000] example_open)
       = Some (Date 1700000025000)
   \<and> closed_with (trace (run example_config
         [Tick 1700000025000, Tick 1700000050000, Tick 1700000075000] example_open))
       = [(External 0, AErr (Boom ''Connection was lost'' (Reason connectionLost) None))]"
  by code_simp

section \<open>The query that is not cancelled\<close>

text \<open>
  The listener that \<^verbatim>\<open>waitForMessage\<close> registers for the phone connection has no
  \<^verbatim>\<open>cancel\<close>, and the timeout of such a listener settles no promise.
\<close>

lemma waitForMessage_start_ExitQuery:
  "listeners (PHONE_CONNECTION_CB cfg)
      (socketEvents (snd (waitForMessage_start cfg tg True ms s)))
     = listeners (PHONE_CONNECTION_CB cfg) (socketEvents s)
       @ [ExitQuery (length (promises s)) tg None]
         @ (if PHONE_CONNECTION_CB cfg = ''TAG:'' @ tg then [OnRecv (length (promises s))] else [])"
  by (simp add: waitForMessage_start_def Let_def exitQueryIfResponseNotExpected_def
        startPhoneCheckInterval_def setTimer_def promiseTimeout_start_def newPromise_def
        listeners_def on_def split: option.split)

lemma graceElapsed_without_cancel:
  "promises (graceElapsed cfg None s) = promises s
   \<and> phoneCheckListeners (graceElapsed cfg None s) = phoneCheckListeners s
   \<and> trace (graceElapsed cfg None s)
       = trace s @ [Log ''info''
           ''cancelling wait for message as a response is no longer expected from the phone'',
          Uncaught (TypeError ''cancel is not a function'')]"
  by (simp add: graceElapsed_def Let_def effect_def)

lemma map_of_settle:
  "map_of (promises s) p = Some Pending \<Longrightarrow> map_of (promises (settle p v s)) p = Some v"
proof -
  have "map_of xs p = Some Pending \<Longrightarrow>
        map_of (map (\<lambda>(k, w). if k = p then (k, v) else (k, w)) xs) p = Some v" for xs
    by (induction xs) (auto split: if_splits)
  then show "map_of (promises s) p = Some Pending \<Longrightarrow> ?thesis"
    by (simp add: settle_def)
qed

text \<open>
  Had \<^verbatim>\<open>cancel\<close> been the \<^verbatim>\<open>onErr\<close> of the waiter, the timeout would reject its promise with
  the status 422.
\<close>

lemma graceElapsed_with_cancel:
  "map_of (promises s) p = Some Pending \<Longrightarrow>
   map_of (promises (graceElapsed cfg (Some (OnErr p)) s)) p
     = Some (Rejected (Boom ''Not expecting a response'' (Lit 422) None))"
proof -
  assume p: "map_of (promises s) p = Some Pending"
  let ?s1 = "effect (Log ''info''
      ''cancelling wait for message as a response is no longer expected from the phone'') s"
  have "map_of (promises ?s1) p = Some Pending" using p by (simp add: effect_def)
  then have "map_of (promises (settle p (Rejected (Boom ''Not expecting a response'' (Lit 422) None))
                                 ?s1)) p
               = Some (Rejected (Boom ''Not expecting a response'' (Lit 422) None))"
    by (rule map_of_settle)
  then show ?thesis by (simp add: graceElapsed_def Let_def)
qed

text \<open>
  Claim C8 on the example socket. The query that requires the phone is sent and gets the
  tag \<^verbatim>\<open>0.--0\<close> and the promise 0; the frame that says the phone is connected sets the
  timeout, whose \<^verbatim>\<open>cancel\<close> is \<^verbatim>\<open>undefined\<close>; when the timeout runs out its callback logs
  and throws a \<^verbatim>\<open>TypeError\<close>. The promise is still pending, the query is still suspended,
  and \<^verbatim>\<open>phoneCheckListeners\<close>, 0 before the query, is still 1.
\<close>

theorem grace_timeout_rejects_nothing:
  "fst (query_start example_config (example_query True) example_open) = Inr (0, ''0.--0'')
   \<and> phoneCheckListeners example_open = 0
   \<and> timers example_reachable = [KeepAlive, PhoneCheck, Grace 0 ''0.--0'' None]
   \<and> trace example_elapsed
       = trace example_reachable
         @ [Log ''info''
             ''cancelling wait for message as a response is no longer expected from the phone'',
            Uncaught (TypeError ''cancel is not a function'')]
   \<and> map_of (promises example_elapsed) 0 = Some Pending
   \<and> query_await example_config (example_query True) 0 ''0.--0'' example_elapsed = None
   \<and> phoneCheckListeners example_elapsed = 1"
  by code_simp

section \<open>The listeners that stay on the transport\<close>

lemma waitForSocketOpen_finally_ws_listeners:
  "ws_listeners (waitForSocketOpen_finally p s) = ws_listeners s"
  by (simp add: waitForSocketOpen_finally_def)

text \<open>
  \<^verbatim>\<open>waitForMessage\<close> does remove what it registered: once the example query is answered
  and has returned, the listeners and the timers are those of the open socket.
\<close>

lemma waitForMessage_removes_listeners:
  "map_option (\<lambda>r. (fst r, ws_listeners (snd r), socketEvents (snd r), timers (snd r),
                      phoneCheckListeners (snd r)))
     (query_await example_config (example_query True) 0 ''0.--0'' (example_answered ''Status''))
   = Some (Inr (JArr [JStr ''Status'']), ws_listeners example_open, socketEvents example_open,
           timers example_open, phoneCheckListeners example_open)"
  by code_simp

text \<open>
  Claim C9 on the example socket. \<^verbatim>\<open>waitForSocketOpen\<close> is called while the transport is
  connecting and is suspended on the promise 0; the transport opens and the call returns.
  Its three listeners are still registered on \<^verbatim>\<open>ws\<close>, after those of the construction.
\<close>

theorem waitForSocketOpen_leaves_listeners:
  "fst (waitForSocketOpen_start example_socket) = Inr (Some 0)
   \<and> waitForSocketOpen_await 0 example_waiting = None
   \<and> waitForSocketOpen_await 0 (ws_opened example_config example_waiting)
       = Some (Inr (), example_returned)
   \<and> listeners ''open'' (ws_listeners example_returned) = [OnOpen, OnOpenW 0]
   \<and> listeners ''close'' (ws_listeners example_returned) = [OnClose, OnCloseW 0]
   \<and> listeners ''error'' (ws_listeners example_returned) = [End, OnCloseW 0]"
  by code_simp

end
